theory Spec2Isabelle
  imports Complex_Main
begin

section \<open>Nonlinear solvers: Newton-Raphson, bisection and their composition\<close>

text \<open>
  A shallow embedding of \<^verbatim>\<open>src/nonlinear_solvers/solvers.py\<close>.

  Numbers. The solvers work on Python floats; here they are the reals, so rounding,
  infinities and NaN are outside the model. Every comparison of the source
  (\<^verbatim>\<open>np.abs(f(x)) > eps\<close>, \<^verbatim>\<open>f_x0 > 0\<close>, \<^verbatim>\<open>f_x0 < 0\<close>) is the
  comparison of the reals, and \<^verbatim>\<open>(x_0 + x_1)/2\<close> divides by the literal 2, which no
  host refuses.

  Division. The one division whose divisor is data is \<^verbatim>\<open>f(x_0) / df(x_0)\<close> in
  \<^verbatim>\<open>newton_raphson\<close>. What it does at a zero divisor is the host's business: on
  Python floats it raises \<^verbatim>\<open>ZeroDivisionError\<close>, on numpy floats it returns a value.
  The division is therefore a parameter \<open>dv\<close> of the model: \<open>dv a b = None\<close> when the
  host raises, \<open>Some q\<close> when it returns \<open>q\<close>.

  Functions. \<open>f\<close> and \<open>df\<close> are pure and total, as the docstrings assume
  (\<^verbatim>\<open>function(x: float) -> float\<close>).

  Errors. Every \<^verbatim>\<open>raise\<close> of the source is a value \<open>Inl e\<close>; a normal return is
  \<open>Inr x\<close>.
\<close>

subsection \<open>Errors and the host division\<close>

datatype error =
    ConvergenceError
  | ValueError string
  | ZeroDivisionError

type_synonym hostdiv = "real \<Rightarrow> real \<Rightarrow> real option"

text \<open>Python's \<^verbatim>\<open>/\<close> on floats: a zero divisor raises.\<close>

definition py_div :: hostdiv where
  "py_div a b = (if b = 0 then None else Some (a / b))"

subsection \<open>\<^verbatim>\<open>newton_raphson\<close>\<close>

text \<open>
  Line 39, \<^verbatim>\<open>x_0 = x_0 - (f(x_0) / df(x_0))\<close>: the new iterate, or nothing when the
  host division raises.
\<close>

definition newton_update :: "hostdiv \<Rightarrow> (real \<Rightarrow> real) \<Rightarrow> (real \<Rightarrow> real) \<Rightarrow> real \<Rightarrow> real option" where
  "newton_update dv f df x = (case dv (f x) (df x) of None \<Rightarrow> None | Some q \<Rightarrow> Some (x - q))"

text \<open>
  Lines 38 to 43, the \<^verbatim>\<open>while\<close> loop on the state \<^verbatim>\<open>(x_0, iteration)\<close>.
  The counter bounds the number of passes, so the loop is total.
\<close>

function newton_loop ::
  "hostdiv \<Rightarrow> (real \<Rightarrow> real) \<Rightarrow> (real \<Rightarrow> real) \<Rightarrow> real \<Rightarrow> int \<Rightarrow> real \<Rightarrow> int \<Rightarrow> error + real" where
  "newton_loop dv f df eps max_its x iteration =
     (if \<bar>f x\<bar> > eps then
        (case newton_update dv f df x of
           None \<Rightarrow> Inl ZeroDivisionError
         | Some x' \<Rightarrow>
             if iteration + 1 > max_its then Inl ConvergenceError
             else newton_loop dv f df eps max_its x' (iteration + 1))
      else Inr x)"
  by pat_completeness auto
termination
  by (relation "measure (\<lambda>(dv, f, df, eps, max_its, x, iteration). nat (max_its - iteration))") auto

declare newton_loop.simps [simp del]

definition newton_raphson ::
  "hostdiv \<Rightarrow> (real \<Rightarrow> real) \<Rightarrow> (real \<Rightarrow> real) \<Rightarrow> real \<Rightarrow> real \<Rightarrow> int \<Rightarrow> error + real" where
  "newton_raphson dv f df x_0 eps max_its = newton_loop dv f df eps max_its x_0 0"

subsection \<open>\<^verbatim>\<open>bisection\<close>\<close>

text \<open>Lines 79 to 82: the check of the endpoints' signs, \<open>Some e\<close> when it raises.\<close>

definition bracket_check :: "(real \<Rightarrow> real) \<Rightarrow> real \<Rightarrow> real \<Rightarrow> error option" where
  "bracket_check f x_0 x_1 =
     (let f_x0 = f x_0; f_x1 = f x_1 in
      if f_x0 > 0 \<and> f_x1 > 0 then Some (ValueError ''f(x) positive for both endpoints.'')
      else if f_x0 < 0 \<and> f_x1 < 0 then Some (ValueError ''f(x) negative for both endpoints.'')
      else None)"

text \<open>Lines 83 to 90: the new bracket \<^verbatim>\<open>(x_0, x_1)\<close>.\<close>

definition narrow :: "(real \<Rightarrow> real) \<Rightarrow> real \<Rightarrow> real \<Rightarrow> real \<Rightarrow> real \<times> real" where
  "narrow f x_0 x_1 x_mid =
     (let f_xmid = f x_mid; f_x0 = f x_0; f_x1 = f x_1 in
      if f_xmid < 0 \<and> f_x0 < 0 then (x_mid, x_1)
      else if f_xmid > 0 \<and> f_x0 > 0 then (x_mid, x_1)
      else if f_xmid > 0 \<and> f_x1 > 0 then (x_0, x_mid)
      else if f_xmid < 0 \<and> f_x1 < 0 then (x_0, x_mid)
      else (x_0, x_1))"

text \<open>
  Lines 74 to 94, the \<^verbatim>\<open>while\<close> loop on the state
  \<^verbatim>\<open>(x_0, x_1, x_mid, iteration)\<close>. The guard reads the midpoint left by the pass
  before; the body recomputes it from the current bracket.
\<close>

function bisection_loop ::
  "(real \<Rightarrow> real) \<Rightarrow> real \<Rightarrow> int \<Rightarrow> real \<Rightarrow> real \<Rightarrow> real \<Rightarrow> int \<Rightarrow> error + real" where
  "bisection_loop f eps max_its x_0 x_1 x_mid iteration =
     (if \<bar>f x_mid\<bar> > eps then
        (case bracket_check f x_0 x_1 of
           Some e \<Rightarrow> Inl e
         | None \<Rightarrow>
             if iteration + 1 > max_its then Inl ConvergenceError
             else bisection_loop f eps max_its
                    (fst (narrow f x_0 x_1 ((x_0 + x_1) / 2)))
                    (snd (narrow f x_0 x_1 ((x_0 + x_1) / 2)))
                    ((x_0 + x_1) / 2) (iteration + 1))
      else Inr x_mid)"
  by pat_completeness auto
termination
  by (relation "measure (\<lambda>(f, eps, max_its, x_0, x_1, x_mid, iteration). nat (max_its - iteration))") auto

declare bisection_loop.simps [simp del]

definition bisection :: "(real \<Rightarrow> real) \<Rightarrow> real \<Rightarrow> real \<Rightarrow> real \<Rightarrow> int \<Rightarrow> error + real" where
  "bisection f x_0 x_1 eps max_its = bisection_loop f eps max_its x_0 x_1 ((x_0 + x_1) / 2) 0"

subsection \<open>\<^verbatim>\<open>solve\<close>\<close>

text \<open>
  Lines 129 to 133: only \<^verbatim>\<open>ConvergenceError\<close> is caught; the bisection gets the
  caller's \<^verbatim>\<open>x_0\<close>, which the Newton stage cannot change.
\<close>

definition solve ::
  "hostdiv \<Rightarrow> (real \<Rightarrow> real) \<Rightarrow> (real \<Rightarrow> real) \<Rightarrow> real \<Rightarrow> real \<Rightarrow> real \<Rightarrow> int \<Rightarrow> int \<Rightarrow> error + real" where
  "solve dv f df x_0 x_1 eps max_its_n max_its_b =
     (case newton_raphson dv f df x_0 eps max_its_n of
        Inl ConvergenceError \<Rightarrow> bisection f x_0 x_1 eps max_its_b
      | Inl e \<Rightarrow> Inl e
      | Inr x \<Rightarrow> Inr x)"


subsection \<open>Notions of the specification\<close>

text \<open>
  The iterate reached from \<open>x\<close> after \<open>k\<close> updates \<open>x \<leftarrow> x - f(x)/df(x)\<close>; nothing
  when one of the divisions raised.
\<close>

fun newton_iterate :: "hostdiv \<Rightarrow> (real \<Rightarrow> real) \<Rightarrow> (real \<Rightarrow> real) \<Rightarrow> real \<Rightarrow> nat \<Rightarrow> real option" where
  "newton_iterate dv f df x 0 = Some x"
| "newton_iterate dv f df x (Suc k) =
     (case newton_update dv f df x of None \<Rightarrow> None | Some x' \<Rightarrow> newton_iterate dv f df x' k)"

text \<open>The \<open>k\<close>-th iterate exists and the loop guard \<^verbatim>\<open>np.abs(f(x)) > eps\<close> holds there.\<close>

definition unconverged :: "hostdiv \<Rightarrow> (real \<Rightarrow> real) \<Rightarrow> (real \<Rightarrow> real) \<Rightarrow> real \<Rightarrow> real \<Rightarrow> nat \<Rightarrow> bool" where
  "unconverged dv f df eps x k =
     (case newton_iterate dv f df x k of None \<Rightarrow> False | Some z \<Rightarrow> eps < \<bar>f z\<bar>)"

text \<open>The bracket invariant: \<open>f\<close> is strictly negative at one endpoint and strictly positive at the other.\<close>

definition opposite_signs :: "(real \<Rightarrow> real) \<Rightarrow> real \<Rightarrow> real \<Rightarrow> bool" where
  "opposite_signs f x_0 x_1 = ((f x_0 < 0 \<and> 0 < f x_1) \<or> (0 < f x_0 \<and> f x_1 < 0))"

subsection \<open>Test functions\<close>

text \<open>\<open>x\<^sup>2 - 2\<close> and its derivative, the example of the specification.\<close>

definition f_sq2 :: "real \<Rightarrow> real" where "f_sq2 x = x * x - 2"
definition df_sq2 :: "real \<Rightarrow> real" where "df_sq2 x = 2 * x"

text \<open>\<open>x\<^sup>2 + 1\<close>, positive everywhere, and its derivative.\<close>

definition f_pos :: "real \<Rightarrow> real" where "f_pos x = x * x + 1"
definition df_pos :: "real \<Rightarrow> real" where "df_pos x = 2 * x"

text \<open>The identity and the constants one and zero.\<close>

definition f_id :: "real \<Rightarrow> real" where "f_id x = x"
definition c_one :: "real \<Rightarrow> real" where "c_one x = 1"
definition c_zero :: "real \<Rightarrow> real" where "c_zero x = 0"

section \<open>Properties\<close>

subsection \<open>Auxiliary facts about the Newton loop\<close>

lemma all_le_Suc: "(\<forall>k \<le> Suc n. Q k) = (Q 0 \<and> (\<forall>j \<le> n. Q (Suc j)))"
proof
  assume a: "\<forall>k \<le> Suc n. Q k"
  show "Q 0 \<and> (\<forall>j \<le> n. Q (Suc j))" using a by simp
next
  assume a: "Q 0 \<and> (\<forall>j \<le> n. Q (Suc j))"
  show "\<forall>k \<le> Suc n. Q k"
  proof (intro allI impI)
    fix k assume "k \<le> Suc n"
    then show "Q k" using a by (cases k) simp_all
  qed
qed


lemma unconverged_0: "unconverged dv f df eps x 0 = (eps < \<bar>f x\<bar>)"
  by (simp add: unconverged_def)

lemma unconverged_Suc:
  "newton_update dv f df x = Some x' \<Longrightarrow> unconverged dv f df eps x (Suc k) = unconverged dv f df eps x' k"
  by (simp add: unconverged_def)

lemma unconverged_iterate:
  "unconverged dv f df eps x k = (\<exists>z. newton_iterate dv f df x k = Some z \<and> eps < \<bar>f z\<bar>)"
  by (simp add: unconverged_def split: option.splits)

lemma newton_loop_ConvergenceError:
  "newton_loop dv f df eps max_its x iteration = Inl ConvergenceError \<longleftrightarrow>
     (\<forall>k \<le> nat (max_its - iteration). unconverged dv f df eps x k)
     \<and> newton_iterate dv f df x (Suc (nat (max_its - iteration))) \<noteq> None"
proof (induction dv f df eps max_its x iteration rule: newton_loop.induct)
  case (1 dv f df eps max_its x iteration)
  show ?case
  proof (cases "eps < \<bar>f x\<bar>")
    case False
    then have "newton_loop dv f df eps max_its x iteration = Inr x"
      by (simp add: newton_loop.simps)
    moreover have "\<not> unconverged dv f df eps x 0"
      using False by (simp add: unconverged_0)
    ultimately show ?thesis by auto
  next
    case guard: True
    show ?thesis
    proof (cases "newton_update dv f df x")
      case None
      then have "newton_loop dv f df eps max_its x iteration = Inl ZeroDivisionError"
        using guard by (simp add: newton_loop.simps)
      moreover have "newton_iterate dv f df x (Suc (nat (max_its - iteration))) = None"
        using None by simp
      ultimately show ?thesis by simp
    next
      case (Some x')
      show ?thesis
      proof (cases "iteration + 1 > max_its")
        case True
        then have "newton_loop dv f df eps max_its x iteration = Inl ConvergenceError"
          using guard Some by (simp add: newton_loop.simps)
        moreover have "nat (max_its - iteration) = 0" using True by simp
        ultimately show ?thesis using guard Some by (simp add: unconverged_0)
      next
        case False
        then have n: "nat (max_its - iteration) = Suc (nat (max_its - (iteration + 1)))"
          by simp
        have "newton_loop dv f df eps max_its x iteration
                = newton_loop dv f df eps max_its x' (iteration + 1)"
          using guard Some False by (subst newton_loop.simps) simp
        then show ?thesis
          using "1.IH" [OF guard Some False] guard Some
          by (simp only: n all_le_Suc unconverged_0 unconverged_Suc [OF Some])
             simp
      qed
    qed
  qed
qed








subsection \<open>Auxiliary facts about the bisection loop\<close>

lemma narrow_opposite:
  "opposite_signs f x_0 x_1 \<Longrightarrow>
     opposite_signs f (fst (narrow f x_0 x_1 m)) (snd (narrow f x_0 x_1 m))"
  unfolding opposite_signs_def narrow_def Let_def
  by (cases "f m < 0"; cases "0 < f m"; cases "f x_0 < 0"; cases "0 < f x_0";
      cases "f x_1 < 0"; cases "0 < f x_1"; simp)

lemma check_opposite: "opposite_signs f x_0 x_1 \<Longrightarrow> bracket_check f x_0 x_1 = None"
  unfolding opposite_signs_def bracket_check_def Let_def
  by (cases "f x_0 < 0"; cases "0 < f x_0"; cases "f x_1 < 0"; cases "0 < f x_1"; simp)

lemma bisection_loop_no_ValueError:
  "opposite_signs f x_0 x_1 \<Longrightarrow> bisection_loop f eps max_its x_0 x_1 x_mid iteration \<noteq> Inl (ValueError msg)"
proof (induction f eps max_its x_0 x_1 x_mid iteration rule: bisection_loop.induct)
  case (1 f eps max_its x_0 x_1 x_mid iteration)
  note chk = check_opposite [OF "1.prems"]
  show ?case
  proof (cases "eps < \<bar>f x_mid\<bar>")
    case guard: True
    show ?thesis
    proof (cases "iteration + 1 > max_its")
      case True
      then have "bisection_loop f eps max_its x_0 x_1 x_mid iteration = Inl ConvergenceError"
        using guard chk by (subst bisection_loop.simps) simp
      then show ?thesis by simp
    next
      case False
      have "bisection_loop f eps max_its x_0 x_1 x_mid iteration =
            bisection_loop f eps max_its
                    (fst (narrow f x_0 x_1 ((x_0 + x_1) / 2)))
                    (snd (narrow f x_0 x_1 ((x_0 + x_1) / 2)))
                    ((x_0 + x_1) / 2) (iteration + 1)"
        using guard chk False by (subst bisection_loop.simps) simp
      then show ?thesis
        using "1.IH" [OF guard chk False narrow_opposite [OF "1.prems"]] by simp
    qed
  next
    case False
    then have "bisection_loop f eps max_its x_0 x_1 x_mid iteration = Inr x_mid"
      by (subst bisection_loop.simps) simp
    then show ?thesis by simp
  qed
qed

lemma bisection_loop_Inr:
  "bisection_loop f eps max_its x_0 x_1 x_mid iteration = Inr y \<Longrightarrow> \<bar>f y\<bar> \<le> eps"
proof (induction f eps max_its x_0 x_1 x_mid iteration rule: bisection_loop.induct)
  case (1 f eps max_its x_0 x_1 x_mid iteration)
  show ?case
  proof (cases "eps < \<bar>f x_mid\<bar>")
    case guard: True
    show ?thesis
    proof (cases "bracket_check f x_0 x_1")
      case (Some e)
      then have "bisection_loop f eps max_its x_0 x_1 x_mid iteration = Inl e"
        using guard by (subst bisection_loop.simps) simp
      then show ?thesis using "1.prems" by simp
    next
      case None
      show ?thesis
      proof (cases "iteration + 1 > max_its")
        case True
        then have "bisection_loop f eps max_its x_0 x_1 x_mid iteration = Inl ConvergenceError"
          using guard None by (subst bisection_loop.simps) simp
        then show ?thesis using "1.prems" by simp
      next
        case False
        have "bisection_loop f eps max_its x_0 x_1 x_mid iteration =
              bisection_loop f eps max_its
                    (fst (narrow f x_0 x_1 ((x_0 + x_1) / 2)))
                    (snd (narrow f x_0 x_1 ((x_0 + x_1) / 2)))
                    ((x_0 + x_1) / 2) (iteration + 1)"
          using guard None False by (subst bisection_loop.simps) simp
        then show ?thesis
          using "1.IH" [OF guard None False] "1.prems" by simp
      qed
    qed
  next
    case False
    then have "bisection_loop f eps max_its x_0 x_1 x_mid iteration = Inr x_mid"
      by (subst bisection_loop.simps) simp
    then show ?thesis using "1.prems" False by simp
  qed
qed




section \<open>The claims\<close>

subsection \<open>Bisection: one pass of the loop\<close>

text \<open>
  C1. The narrowing step of a bisection pass, lines 83 to 90, with \<open>mid\<close> the midpoint
  computed in that pass, follows the ordered four-case rule, first true case wins: if
  \<open>f mid < 0\<close> and \<open>f x_0 < 0\<close> then \<open>x_0\<close> becomes \<open>mid\<close>; else if \<open>f mid > 0\<close>
  and \<open>f x_0 > 0\<close> then \<open>x_0\<close> becomes \<open>mid\<close>; else if \<open>f mid > 0\<close> and
  \<open>f x_1 > 0\<close> then \<open>x_1\<close> becomes \<open>mid\<close>; else if \<open>f mid < 0\<close> and \<open>f x_1 < 0\<close>
  then \<open>x_1\<close> becomes \<open>mid\<close>; and when no case matches, as when \<open>f mid\<close> is exactly
  zero, neither endpoint changes.

  Every pass of the loop that gets past the sign check, the last one included, narrows
  the bracket so: it raises \<^verbatim>\<open>ConvergenceError\<close> when the counter exceeds the cap and
  otherwise goes on with the narrowed bracket and the new midpoint. The narrowed bracket
  shows in what the solver returns: when the new midpoint meets the tolerance it is
  returned, and when it does not but the midpoint of the narrowed bracket \<open>(a, b)\<close>
  does, the next pass returns \<open>(a + b) / 2\<close>.
\<close>

theorem bisection_narrowing_rule:
  "narrow f x_0 x_1 mid =
     (if f mid < 0 \<and> f x_0 < 0 then (mid, x_1)
      else if f mid > 0 \<and> f x_0 > 0 then (mid, x_1)
      else if f mid > 0 \<and> f x_1 > 0 then (x_0, mid)
      else if f mid < 0 \<and> f x_1 < 0 then (x_0, mid)
      else (x_0, x_1))
   \<and> (f mid = 0 \<longrightarrow> narrow f x_0 x_1 mid = (x_0, x_1))
   \<and> (eps < \<bar>f x_mid\<bar> \<and> bracket_check f x_0 x_1 = None \<longrightarrow>
        bisection_loop f eps max_its x_0 x_1 x_mid iteration =
          (if iteration + 1 > max_its then Inl ConvergenceError
           else bisection_loop f eps max_its
                  (fst (narrow f x_0 x_1 ((x_0 + x_1) / 2)))
                  (snd (narrow f x_0 x_1 ((x_0 + x_1) / 2)))
                  ((x_0 + x_1) / 2) (iteration + 1)))
   \<and> (eps < \<bar>f x_mid\<bar> \<and> bracket_check f x_0 x_1 = None \<and> iteration + 1 \<le> max_its
        \<and> \<not> eps < \<bar>f ((x_0 + x_1) / 2)\<bar> \<longrightarrow>
        bisection_loop f eps max_its x_0 x_1 x_mid iteration = Inr ((x_0 + x_1) / 2))
   \<and> (eps < \<bar>f x_mid\<bar> \<and> bracket_check f x_0 x_1 = None \<and> iteration + 2 \<le> max_its
        \<and> eps < \<bar>f ((x_0 + x_1) / 2)\<bar>
        \<and> narrow f x_0 x_1 ((x_0 + x_1) / 2) = (a, b)
        \<and> bracket_check f a b = None
        \<and> \<not> eps < \<bar>f ((a + b) / 2)\<bar> \<longrightarrow>
        bisection_loop f eps max_its x_0 x_1 x_mid iteration = Inr ((a + b) / 2))"
proof (intro conjI impI)
  show "narrow f x_0 x_1 mid =
     (if f mid < 0 \<and> f x_0 < 0 then (mid, x_1)
      else if f mid > 0 \<and> f x_0 > 0 then (mid, x_1)
      else if f mid > 0 \<and> f x_1 > 0 then (x_0, mid)
      else if f mid < 0 \<and> f x_1 < 0 then (x_0, mid)
      else (x_0, x_1))"
    by (simp add: narrow_def Let_def)
next
  assume "f mid = 0"
  then show "narrow f x_0 x_1 mid = (x_0, x_1)"
    by (simp add: narrow_def Let_def)
next
  assume "eps < \<bar>f x_mid\<bar> \<and> bracket_check f x_0 x_1 = None"
  then show "bisection_loop f eps max_its x_0 x_1 x_mid iteration =
          (if iteration + 1 > max_its then Inl ConvergenceError
           else bisection_loop f eps max_its
                  (fst (narrow f x_0 x_1 ((x_0 + x_1) / 2)))
                  (snd (narrow f x_0 x_1 ((x_0 + x_1) / 2)))
                  ((x_0 + x_1) / 2) (iteration + 1))"
    by (subst bisection_loop.simps) simp
next
  assume a: "eps < \<bar>f x_mid\<bar> \<and> bracket_check f x_0 x_1 = None \<and> iteration + 1 \<le> max_its
        \<and> \<not> eps < \<bar>f ((x_0 + x_1) / 2)\<bar>"
  then have "bisection_loop f eps max_its x_0 x_1 x_mid iteration =
         bisection_loop f eps max_its
                  (fst (narrow f x_0 x_1 ((x_0 + x_1) / 2)))
                  (snd (narrow f x_0 x_1 ((x_0 + x_1) / 2)))
                  ((x_0 + x_1) / 2) (iteration + 1)"
    by (subst bisection_loop.simps) simp
  also have "\<dots> = Inr ((x_0 + x_1) / 2)"
    using a by (subst bisection_loop.simps) simp
  finally show "bisection_loop f eps max_its x_0 x_1 x_mid iteration = Inr ((x_0 + x_1) / 2)" .
next
  assume a: "eps < \<bar>f x_mid\<bar> \<and> bracket_check f x_0 x_1 = None \<and> iteration + 2 \<le> max_its
        \<and> eps < \<bar>f ((x_0 + x_1) / 2)\<bar>
        \<and> narrow f x_0 x_1 ((x_0 + x_1) / 2) = (a, b)
        \<and> bracket_check f a b = None
        \<and> \<not> eps < \<bar>f ((a + b) / 2)\<bar>"
  then have "bisection_loop f eps max_its x_0 x_1 x_mid iteration =
         bisection_loop f eps max_its a b ((x_0 + x_1) / 2) (iteration + 1)"
    by (subst bisection_loop.simps) simp
  also have "\<dots> = bisection_loop f eps max_its
                  (fst (narrow f a b ((a + b) / 2)))
                  (snd (narrow f a b ((a + b) / 2)))
                  ((a + b) / 2) (iteration + 1 + 1)"
    using a by (subst bisection_loop.simps) simp
  also have "\<dots> = Inr ((a + b) / 2)"
    using a by (subst bisection_loop.simps) simp
  finally show "bisection_loop f eps max_its x_0 x_1 x_mid iteration = Inr ((a + b) / 2)" .
qed

text \<open>
  The four cases on \<open>x\<^sup>2 - 2\<close>, in order: the bracket \<open>(1, 3/2)\<close> becomes
  \<open>(5/4, 3/2)\<close>, \<open>(2, 1)\<close> becomes \<open>(3/2, 1)\<close>, \<open>(1, 2)\<close> becomes \<open>(1, 3/2)\<close> and
  \<open>(3/2, 1)\<close> becomes \<open>(3/2, 5/4)\<close>. On the identity with the bracket \<open>(-1, 1)\<close> no
  case applies, \<open>f mid\<close> being zero. On the identity with the bracket \<open>(-1, 3)\<close> and
  \<open>eps = 1/2\<close> the first pass narrows to \<open>(-1, 1)\<close> and the second returns its
  midpoint \<open>0\<close>.
\<close>

theorem bisection_narrowing_rule_witness:
  "narrow f_sq2 1 (3/2) (5/4) = (5/4, 3/2)
   \<and> narrow f_sq2 2 1 (3/2) = (3/2, 1)
   \<and> narrow f_sq2 1 2 (3/2) = (1, 3/2)
   \<and> narrow f_sq2 (3/2) 1 (5/4) = (3/2, 5/4)
   \<and> narrow f_id (-1) 1 0 = (-1, 1)
   \<and> 1/2 < \<bar>f_id 1\<bar> \<and> bracket_check f_id (-1) 3 = None \<and> (0::int) + 2 \<le> 20
   \<and> narrow f_id (-1) 3 ((-1 + 3) / 2) = (-1, 1)
   \<and> bracket_check f_id (-1) 1 = None \<and> \<not> 1/2 < \<bar>f_id ((-1 + 1) / 2)\<bar>
   \<and> bisection_loop f_id (1/2) 20 (-1) 3 1 0 = Inr ((-1 + 1) / 2)
   \<and> bisection f_id (-1) 3 (1/2) 20 = Inr 0"
proof -
  have n1: "narrow f_sq2 1 (3/2) (5/4) = (5/4, 3/2)"
    using bisection_narrowing_rule [of f_sq2 1 "3/2" "5/4",
        THEN conjunct1]
    by (simp add: f_sq2_def)
  have n2: "narrow f_sq2 2 1 (3/2) = (3/2, 1)"
    using bisection_narrowing_rule [of f_sq2 2 1 "3/2",
        THEN conjunct1]
    by (simp add: f_sq2_def)
  have n3: "narrow f_sq2 1 2 (3/2) = (1, 3/2)"
    using bisection_narrowing_rule [of f_sq2 1 2 "3/2",
        THEN conjunct1]
    by (simp add: f_sq2_def)
  have n4: "narrow f_sq2 (3/2) 1 (5/4) = (3/2, 5/4)"
    using bisection_narrowing_rule [of f_sq2 "3/2" 1 "5/4",
        THEN conjunct1]
    by (simp add: f_sq2_def)
  have n5: "narrow f_id (-1) 1 0 = (-1, 1)"
    using bisection_narrowing_rule [of f_id "-1" 1 0,
        THEN conjunct2, THEN conjunct1]
    by (simp add: f_id_def)
  have n6: "narrow f_id (-1) 3 ((-1 + 3) / 2) = (-1, 1)"
    using bisection_narrowing_rule [of f_id "-1" 3 "(-1 + 3) / 2",
        THEN conjunct1]
    by (simp add: f_id_def)
  have h: "1/2 < \<bar>f_id 1\<bar>" "bracket_check f_id (-1) 3 = None" "(0::int) + 2 \<le> 20"
      "1/2 < \<bar>f_id ((-1 + 3) / 2)\<bar>"
      "bracket_check f_id (-1) 1 = None" "\<not> 1/2 < \<bar>f_id ((-1 + 1) / 2)\<bar>"
    by (simp_all add: f_id_def bracket_check_def)
  have r: "bisection_loop f_id (1/2) 20 (-1) 3 1 0 = Inr ((-1 + 1) / 2)"
    using bisection_narrowing_rule [of f_id "-1" 3 0 "1/2" 1 20 0 "-1" 1,
        THEN conjunct2, THEN conjunct2, THEN conjunct2, THEN conjunct2] h n6
    by blast
  have b: "bisection f_id (-1) 3 (1/2) 20 = Inr 0"
    using r by (simp add: bisection_def)
  show ?thesis using n1 n2 n3 n4 n5 n6 h r b by simp
qed

text \<open>
  C3. In every pass of the bisection loop (the guard holds): if \<open>f x_0 > 0\<close> and
  \<open>f x_1 > 0\<close> the solver fails at once with the \<^verbatim>\<open>ValueError\<close> whose message is
  \<^verbatim>\<open>f(x) positive for both endpoints.\<close>; if \<open>f x_0 < 0\<close> and \<open>f x_1 < 0\<close> it fails at
  once with the message \<^verbatim>\<open>f(x) negative for both endpoints.\<close>; and when either
  endpoint evaluates to exactly zero neither branch is taken and the check passes.
  The failure comes before the counter is touched, so it does not depend on
  \<open>iteration\<close> or \<open>max_its\<close>.
\<close>

theorem bracket_check_raises:
  assumes "\<bar>f x_mid\<bar> > eps"
  shows "(f x_0 > 0 \<and> f x_1 > 0 \<longrightarrow>
            bisection_loop f eps max_its x_0 x_1 x_mid iteration
              = Inl (ValueError ''f(x) positive for both endpoints.''))
       \<and> (f x_0 < 0 \<and> f x_1 < 0 \<longrightarrow>
            bisection_loop f eps max_its x_0 x_1 x_mid iteration
              = Inl (ValueError ''f(x) negative for both endpoints.''))
       \<and> (f x_0 = 0 \<or> f x_1 = 0 \<longrightarrow> bracket_check f x_0 x_1 = None)"
  using assms
  by (subst (1 2) bisection_loop.simps) (auto simp add: bracket_check_def Let_def)

theorem bracket_check_raises_witness:
  "(\<bar>f_pos 2\<bar> > 1/10 \<and> f_pos 1 > 0 \<and> f_pos 3 > 0
    \<and> bisection_loop f_pos (1/10) 20 1 3 2 0 = Inl (ValueError ''f(x) positive for both endpoints.''))
   \<and> (\<bar>f_sq2 (1/2)\<bar> > 1/10 \<and> f_sq2 0 < 0 \<and> f_sq2 1 < 0
    \<and> bisection_loop f_sq2 (1/10) 20 0 1 (1/2) 0 = Inl (ValueError ''f(x) negative for both endpoints.''))
   \<and> (\<bar>f_id 1\<bar> > 1/10 \<and> f_id 0 = 0 \<and> bracket_check f_id 0 2 = None)"
  using bracket_check_raises [of "1/10" f_pos 2 1 3 20 0]
        bracket_check_raises [of "1/10" f_sq2 "1/2" 0 1 20 0]
        bracket_check_raises [of "1/10" f_id 1 0 2 20 0]
  by (simp add: f_pos_def f_sq2_def f_id_def)

text \<open>
  C9. When the midpoint of the initial bracket already meets the tolerance,
  \<open>\<bar>f ((x_0 + x_1) / 2)\<bar> \<le> eps\<close>, \<^verbatim>\<open>bisection\<close> returns that midpoint without entering
  the loop body: the sign check never runs, so no \<^verbatim>\<open>ValueError\<close> is raised whatever
  the signs of \<open>f x_0\<close> and \<open>f x_1\<close> are.
\<close>

theorem bisection_converged_midpoint:
  "\<bar>f ((x_0 + x_1) / 2)\<bar> \<le> eps \<Longrightarrow> bisection f x_0 x_1 eps max_its = Inr ((x_0 + x_1) / 2)"
  by (simp add: bisection_def bisection_loop.simps)

text \<open>
  \<open>x\<^sup>2 + 1\<close> is positive at both ends of \<open>[1, 3]\<close>, so the check would raise; with the
  tolerance \<open>5\<close> the midpoint \<open>2\<close> is returned. The same at both ends negative.
\<close>

theorem bisection_converged_midpoint_witness:
  "(\<bar>f_pos ((1 + 3) / 2)\<bar> \<le> 5 \<and> f_pos 1 > 0 \<and> f_pos 3 > 0
    \<and> bracket_check f_pos 1 3 = Some (ValueError ''f(x) positive for both endpoints.'')
    \<and> bisection f_pos 1 3 5 20 = Inr ((1 + 3) / 2))
   \<and> (\<bar>f_sq2 ((0 + 1) / 2)\<bar> \<le> 2 \<and> f_sq2 0 < 0 \<and> f_sq2 1 < 0
    \<and> bracket_check f_sq2 0 1 = Some (ValueError ''f(x) negative for both endpoints.'')
    \<and> bisection f_sq2 0 1 2 20 = Inr ((0 + 1) / 2))"
  using bisection_converged_midpoint [of f_pos 1 3 5 20]
        bisection_converged_midpoint [of f_sq2 0 1 2 20]
  by (simp add: f_pos_def f_sq2_def bracket_check_def)

subsection \<open>Bisection: the bracket invariant and the returned value\<close>

text \<open>
  C7. The bracket invariant. When \<open>f x_0\<close> and \<open>f x_1\<close> have strictly opposite signs,
  the sign check passes, the narrowing step leaves a bracket whose endpoints again have
  strictly opposite signs, and so the whole run from such a bracket never raises the
  \<^verbatim>\<open>ValueError\<close> of the check. When a pass of the loop starts (the guard holds) on a
  bracket whose endpoints have the same strict sign, the run fails with that
  \<^verbatim>\<open>ValueError\<close>: the violation is reported, not repaired.
\<close>

theorem bisection_bracket_invariant:
  "(opposite_signs f x_0 x_1 \<longrightarrow>
      bracket_check f x_0 x_1 = None
      \<and> opposite_signs f (fst (narrow f x_0 x_1 ((x_0 + x_1) / 2)))
                         (snd (narrow f x_0 x_1 ((x_0 + x_1) / 2)))
      \<and> (\<forall>msg. bisection_loop f eps max_its x_0 x_1 x_mid iteration \<noteq> Inl (ValueError msg))
      \<and> (\<forall>msg. bisection f x_0 x_1 eps max_its \<noteq> Inl (ValueError msg)))
   \<and> (eps < \<bar>f x_mid\<bar> \<and> ((0 < f x_0 \<and> 0 < f x_1) \<or> (f x_0 < 0 \<and> f x_1 < 0)) \<longrightarrow>
        (\<exists>msg. bisection_loop f eps max_its x_0 x_1 x_mid iteration = Inl (ValueError msg)))"
proof (intro conjI impI allI)
  assume "opposite_signs f x_0 x_1"
  then show "bracket_check f x_0 x_1 = None" by (rule check_opposite)
next
  assume "opposite_signs f x_0 x_1"
  then show "opposite_signs f (fst (narrow f x_0 x_1 ((x_0 + x_1) / 2)))
                              (snd (narrow f x_0 x_1 ((x_0 + x_1) / 2)))"
    by (rule narrow_opposite)
next
  fix msg assume "opposite_signs f x_0 x_1"
  then show "bisection_loop f eps max_its x_0 x_1 x_mid iteration \<noteq> Inl (ValueError msg)"
    by (rule bisection_loop_no_ValueError)
next
  fix msg assume "opposite_signs f x_0 x_1"
  then show "bisection f x_0 x_1 eps max_its \<noteq> Inl (ValueError msg)"
    unfolding bisection_def by (rule bisection_loop_no_ValueError)
next
  assume a: "eps < \<bar>f x_mid\<bar> \<and> ((0 < f x_0 \<and> 0 < f x_1) \<or> (f x_0 < 0 \<and> f x_1 < 0))"
  then have "\<exists>msg. bracket_check f x_0 x_1 = Some (ValueError msg)"
    by (auto simp add: bracket_check_def Let_def)
  then obtain msg where "bracket_check f x_0 x_1 = Some (ValueError msg)" by blast
  then have "bisection_loop f eps max_its x_0 x_1 x_mid iteration = Inl (ValueError msg)"
    using a by (subst bisection_loop.simps) simp
  then show "\<exists>msg. bisection_loop f eps max_its x_0 x_1 x_mid iteration = Inl (ValueError msg)"
    by blast
qed

text \<open>
  \<open>x\<^sup>2 - 2\<close> changes sign on \<open>[1, 2]\<close>: the narrowed bracket is \<open>[1, 3/2]\<close>, again with a
  sign change, and the run returns \<open>23/16\<close>. On \<open>[2, 3]\<close> it is positive at both ends and
  the first pass raises.
\<close>

theorem bisection_bracket_invariant_witness:
  "(opposite_signs f_sq2 1 2
    \<and> bracket_check f_sq2 1 2 = None
    \<and> narrow f_sq2 1 2 ((1 + 2) / 2) = (1, 3/2)
    \<and> opposite_signs f_sq2 1 (3/2)
    \<and> bisection f_sq2 1 2 (1/10) 20 = Inr (23/16))
   \<and> (1/10 < \<bar>f_sq2 (5/2)\<bar> \<and> 0 < f_sq2 2 \<and> 0 < f_sq2 3
    \<and> bisection_loop f_sq2 (1/10) 20 2 3 (5/2) 0
          = Inl (ValueError ''f(x) positive for both endpoints.''))"
proof -
  have o: "opposite_signs f_sq2 1 2"
    by (simp add: opposite_signs_def f_sq2_def)
  have n: "narrow f_sq2 1 2 ((1 + 2) / 2) = (1, 3/2)"
    by (simp add: narrow_def f_sq2_def)
  have r: "bisection f_sq2 1 2 (1/10) 20 = Inr (23/16)"
    by (simp add: bisection_def bisection_loop.simps bracket_check_def narrow_def f_sq2_def)
  have s: "1/10 < \<bar>f_sq2 (5/2)\<bar> \<and> 0 < f_sq2 2 \<and> 0 < f_sq2 3"
    by (simp add: f_sq2_def)
  have e: "bisection_loop f_sq2 (1/10) 20 2 3 (5/2) 0
             = Inl (ValueError ''f(x) positive for both endpoints.'')"
    by (simp add: bisection_loop.simps bracket_check_def f_sq2_def)
  show ?thesis
    using bisection_bracket_invariant [of f_sq2 1 2 "1/10" 20 "3/2" 0]
          bisection_bracket_invariant [of f_sq2 2 3 "1/10" 20 "5/2" 0] o n r s e
    by simp
qed

text \<open>
  C6. The claim: whenever \<^verbatim>\<open>bisection\<close> returns, the returned midpoint satisfies
  \<open>\<bar>f mid\<bar> < eps\<close>, as the docstring says (\<^verbatim>\<open>Convergence is achieved when
  abs(f(x)) < eps\<close>). The loop runs while \<^verbatim>\<open>np.abs(f(x_mid)) > eps\<close>, so a midpoint
  with \<open>\<bar>f mid\<bar> = eps\<close> is returned: on the identity, the bracket \<open>[0, 2]\<close> and
  \<open>eps = 1\<close> the result is \<open>1\<close>, where \<open>\<bar>f 1\<bar> = 1\<close> is not below \<open>eps\<close>.
\<close>

theorem bisection_returns_at_tolerance:
  "bisection f_id 0 2 1 20 = Inr 1 \<and> \<not> \<bar>f_id 1\<bar> < 1"
  by (simp add: bisection_def bisection_loop.simps f_id_def)

subsection \<open>Newton-Raphson\<close>




text \<open>
  C5. The claim: whenever \<^verbatim>\<open>newton_raphson\<close> returns \<open>x\<close>, \<open>\<bar>f x\<bar> < eps\<close>, as the
  docstring says (\<^verbatim>\<open>Convergence is achieved when abs(f(x)) < eps\<close>). The loop runs
  while \<^verbatim>\<open>np.abs(f(x_0)) > eps\<close>, so an iterate with \<open>\<bar>f x\<bar> = eps\<close> is returned: on
  the identity from \<open>x_0 = 1\<close> with \<open>eps = 1\<close> the first test, on \<open>x_0\<close> itself, ends the
  loop and \<open>1\<close> is returned, where \<open>\<bar>f 1\<bar> = 1\<close> is not below \<open>eps\<close>.
\<close>

theorem newton_raphson_returns_at_tolerance:
  "newton_raphson py_div f_id c_one 1 1 20 = Inr 1 \<and> \<not> \<bar>f_id 1\<bar> < 1"
  by (simp add: newton_raphson_def newton_loop.simps f_id_def)

text \<open>
  C10. When the guard holds at \<open>x_0\<close> and after each of the first \<open>max_its\<close> updates and
  one more update is computed, \<^verbatim>\<open>newton_raphson\<close> raises \<^verbatim>\<open>ConvergenceError\<close>
  whatever \<open>f\<close> is at the iterate \<open>x\<close> that this last update produced: the guard is not
  tested again. So there are inputs where it fails although the final iterate meets the
  tolerance: the identity with derivative \<open>1\<close>, \<open>x_0 = 1\<close>, \<open>eps = 1/2\<close>, \<open>max_its = 0\<close>,
  whose only update gives \<open>0\<close>.
\<close>

theorem newton_raphson_raises_without_retest:
  "((\<forall>k \<le> nat max_its. unconverged dv f df eps x_0 k)
     \<and> newton_iterate dv f df x_0 (Suc (nat max_its)) = Some x
     \<longrightarrow> newton_raphson dv f df x_0 eps max_its = Inl ConvergenceError)
   \<and> (newton_raphson py_div f_id c_one 1 (1/2) 0 = Inl ConvergenceError
      \<and> newton_iterate py_div f_id c_one 1 (Suc (nat 0)) = Some 0
      \<and> \<bar>f_id 0\<bar> \<le> 1/2)"
proof (intro conjI impI)
  assume "(\<forall>k \<le> nat max_its. unconverged dv f df eps x_0 k)
     \<and> newton_iterate dv f df x_0 (Suc (nat max_its)) = Some x"
  then show "newton_raphson dv f df x_0 eps max_its = Inl ConvergenceError"
    using newton_loop_ConvergenceError [of dv f df eps max_its x_0 0]
    by (simp add: newton_raphson_def)
next
  show "newton_raphson py_div f_id c_one 1 (1/2) 0 = Inl ConvergenceError"
    by (simp add: newton_raphson_def newton_loop.simps newton_update_def py_div_def
                  f_id_def c_one_def)
next
  show "newton_iterate py_div f_id c_one 1 (Suc (nat 0)) = Some 0"
    by (simp add: newton_update_def py_div_def f_id_def c_one_def)
next
  show "\<bar>f_id 0\<bar> \<le> 1/2" by (simp add: f_id_def)
qed

theorem newton_raphson_raises_without_retest_witness:
  "unconverged py_div f_id c_one (1/2) 1 0
   \<and> newton_iterate py_div f_id c_one 1 (Suc (nat 0)) = Some 0
   \<and> \<bar>f_id 0\<bar> \<le> 1/2
   \<and> newton_raphson py_div f_id c_one 1 (1/2) 0 = Inl ConvergenceError"
proof -
  have u: "\<forall>k \<le> nat 0. unconverged py_div f_id c_one (1/2) 1 k"
    by (simp add: unconverged_def f_id_def)
  have i: "newton_iterate py_div f_id c_one 1 (Suc (nat 0)) = Some 0"
    by (simp add: newton_update_def py_div_def f_id_def c_one_def)
  have "newton_raphson py_div f_id c_one 1 (1/2) 0 = Inl ConvergenceError"
    using newton_raphson_raises_without_retest [of 0 py_div f_id c_one "1/2" 1 0] u i
    by blast
  then show ?thesis using u i by (simp add: f_id_def)
qed

text \<open>
  C8. The update division has no guard. In a pass of the Newton loop (the guard holds)
  at an iterate where \<open>df\<close> is zero, the outcome is whatever the host division makes of
  the zero divisor: when it raises, that error leaves \<^verbatim>\<open>newton_raphson\<close> as it is,
  neither caught nor turned into \<^verbatim>\<open>ConvergenceError\<close>; when it returns \<open>q\<close>, the loop
  goes on from \<open>x - q\<close> as after any other update. On Python floats the outcome is
  \<^verbatim>\<open>ZeroDivisionError\<close>.
\<close>

theorem newton_raphson_unguarded_division:
  assumes "eps < \<bar>f x\<bar>" and "df x = 0"
  shows "newton_loop dv f df eps max_its x iteration =
           (case dv (f x) 0 of
              None \<Rightarrow> Inl ZeroDivisionError
            | Some q \<Rightarrow> if iteration + 1 > max_its then Inl ConvergenceError
                        else newton_loop dv f df eps max_its (x - q) (iteration + 1))
         \<and> newton_loop py_div f df eps max_its x iteration = Inl ZeroDivisionError
         \<and> (iteration = 0 \<longrightarrow> newton_raphson py_div f df x eps max_its = Inl ZeroDivisionError)"
  using assms
  by (subst (1 2) newton_loop.simps)
     (simp add: newton_raphson_def newton_loop.simps newton_update_def py_div_def
           split: option.splits)

theorem newton_raphson_unguarded_division_witness:
  "1/2 < \<bar>c_one 0\<bar> \<and> c_zero 0 = 0
   \<and> newton_loop py_div c_one c_zero (1/2) 20 0 0 = Inl ZeroDivisionError
   \<and> newton_raphson py_div c_one c_zero 0 (1/2) 20 = Inl ZeroDivisionError
   \<and> solve py_div c_one c_zero 0 1 (1/2) 20 20 = Inl ZeroDivisionError"
proof -
  have h: "1/2 < \<bar>c_one 0\<bar>" "c_zero 0 = 0"
    by (simp_all add: c_one_def c_zero_def)
  have "newton_loop py_div c_one c_zero (1/2) 20 0 0 = Inl ZeroDivisionError
        \<and> newton_raphson py_div c_one c_zero 0 (1/2) 20 = Inl ZeroDivisionError"
    using newton_raphson_unguarded_division
            [where f = c_one and df = c_zero and x = 0 and eps = "1/2" and dv = py_div
               and max_its = 20 and iteration = 0, OF h, THEN conjunct2]
    by simp
  then show ?thesis using h by (simp add: solve_def)
qed

subsection \<open>The composite solver\<close>

text \<open>
  C4. \<^verbatim>\<open>solve\<close> gives the outcome of \<^verbatim>\<open>newton_raphson\<close> on
  \<open>(f, df, x_0, eps, max_its_n)\<close>, a returned value or an error, unless that outcome is
  \<^verbatim>\<open>ConvergenceError\<close>; then, and only then, it gives the outcome of
  \<^verbatim>\<open>bisection\<close> on \<open>(f, x_0, x_1, eps, max_its_b)\<close>, a returned value or an error
  (\<^verbatim>\<open>ConvergenceError\<close> or \<^verbatim>\<open>ValueError\<close>) alike. Nothing else is tried.
\<close>

theorem solve_dispatch:
  "solve dv f df x_0 x_1 eps max_its_n max_its_b =
     (if newton_raphson dv f df x_0 eps max_its_n = Inl ConvergenceError
      then bisection f x_0 x_1 eps max_its_b
      else newton_raphson dv f df x_0 eps max_its_n)"
  by (simp add: solve_def split: sum.splits error.splits)

text \<open>
  On \<open>x\<^sup>2 - 2\<close>: from \<open>x_0 = 2\<close> Newton converges and its value is returned, although the
  bracket \<open>[2, 3]\<close> would make the bisection raise; from \<open>x_0 = 1\<close> with \<open>max_its_n = 0\<close>
  Newton fails and the bisection on \<open>[1, 2]\<close> gives the result; with \<open>max_its_b = 0\<close> as
  well the bisection's \<^verbatim>\<open>ConvergenceError\<close> comes out. On \<open>x\<^sup>2 + 1\<close> Newton fails and
  the bisection's \<^verbatim>\<open>ValueError\<close> comes out.
\<close>

theorem solve_dispatch_witness:
  "(newton_raphson py_div f_sq2 df_sq2 2 (1/10) 20 = Inr (17/12)
    \<and> bisection f_sq2 2 3 (1/10) 20 = Inl (ValueError ''f(x) positive for both endpoints.'')
    \<and> solve py_div f_sq2 df_sq2 2 3 (1/10) 20 20 = Inr (17/12))
   \<and> (newton_raphson py_div f_sq2 df_sq2 1 (1/10) 0 = Inl ConvergenceError
    \<and> bisection f_sq2 1 2 (1/10) 20 = Inr (23/16)
    \<and> solve py_div f_sq2 df_sq2 1 2 (1/10) 0 20 = Inr (23/16))
   \<and> (bisection f_sq2 1 2 (1/10) 0 = Inl ConvergenceError
    \<and> solve py_div f_sq2 df_sq2 1 2 (1/10) 0 0 = Inl ConvergenceError)
   \<and> (newton_raphson py_div f_pos df_pos 1 (1/10) 0 = Inl ConvergenceError
    \<and> bisection f_pos 1 3 (1/10) 20 = Inl (ValueError ''f(x) positive for both endpoints.'')
    \<and> solve py_div f_pos df_pos 1 3 (1/10) 0 20
         = Inl (ValueError ''f(x) positive for both endpoints.''))"
proof -
  have n1: "newton_raphson py_div f_sq2 df_sq2 2 (1/10) 20 = Inr (17/12)"
    by (simp add: newton_raphson_def newton_loop.simps newton_update_def py_div_def
                  f_sq2_def df_sq2_def)
  have n2: "newton_raphson py_div f_sq2 df_sq2 1 (1/10) 0 = Inl ConvergenceError"
    by (simp add: newton_raphson_def newton_loop.simps newton_update_def py_div_def
                  f_sq2_def df_sq2_def)
  have n3: "newton_raphson py_div f_pos df_pos 1 (1/10) 0 = Inl ConvergenceError"
    by (simp add: newton_raphson_def newton_loop.simps newton_update_def py_div_def
                  f_pos_def df_pos_def)
  have b1: "bisection f_sq2 2 3 (1/10) 20 = Inl (ValueError ''f(x) positive for both endpoints.'')"
    by (simp add: bisection_def bisection_loop.simps bracket_check_def f_sq2_def)
  have b2: "bisection f_sq2 1 2 (1/10) 20 = Inr (23/16)"
    by (simp add: bisection_def bisection_loop.simps bracket_check_def narrow_def f_sq2_def)
  have b3: "bisection f_sq2 1 2 (1/10) 0 = Inl ConvergenceError"
    by (simp add: bisection_def bisection_loop.simps bracket_check_def narrow_def f_sq2_def)
  have b4: "bisection f_pos 1 3 (1/10) 20 = Inl (ValueError ''f(x) positive for both endpoints.'')"
    by (simp add: bisection_def bisection_loop.simps bracket_check_def f_pos_def)
  show ?thesis
    using solve_dispatch [of py_div f_sq2 df_sq2 2 3 "1/10" 20 20]
          solve_dispatch [of py_div f_sq2 df_sq2 1 2 "1/10" 0 20]
          solve_dispatch [of py_div f_sq2 df_sq2 1 2 "1/10" 0 0]
          solve_dispatch [of py_div f_pos df_pos 1 3 "1/10" 0 20]
          n1 n2 n3 b1 b2 b3 b4
    by simp
qed

end
